theory Spec2Isabelle
  imports Complex_Main "HOL-Library.AList" "HOL-Library.Sublist"
begin

section \<open>Python values\<close>

text \<open>
  A Python \<open>str\<close> is modelled as an Isabelle \<open>string\<close> holding its UTF-8 bytes; the
  code never indexes or measures a string, it only concatenates, compares and searches.
  Values stored in the \<open>Dict[str, Any]\<close> dictionaries of the program (parameters, tool
  results, entities) are \<open>pyval\<close>s; a dictionary is an association list in insertion
  order, as Python dictionaries iterate and print in that order.
\<close>

datatype pyval = VNone | VBool bool | VInt int | VStr string | VList "pyval list"

type_synonym pydict = "(string \<times> pyval) list"

text \<open>\<open>d.get(k, default)\<close>.\<close>

definition dict_get :: "pydict \<Rightarrow> string \<Rightarrow> pyval \<Rightarrow> pyval" where
  "dict_get d k dflt = (case map_of d k of None \<Rightarrow> dflt | Some v \<Rightarrow> v)"

text \<open>Truth value of an object, as \<open>if x:\<close> and \<open>not x\<close> take it.\<close>

fun truthy :: "pyval \<Rightarrow> bool" where
  "truthy VNone = False"
| "truthy (VBool b) = b"
| "truthy (VInt i) = (i \<noteq> 0)"
| "truthy (VStr s) = (s \<noteq> [])"
| "truthy (VList xs) = (xs \<noteq> [])"

text \<open>\<open>sep.join(xs)\<close>.\<close>

fun join :: "string \<Rightarrow> string list \<Rightarrow> string" where
  "join sep [] = []"
| "join sep [x] = x"
| "join sep (x # y # ys) = x @ sep @ join sep (y # ys)"

text \<open>\<open>str(n)\<close> of an integer: decimal digits, with a minus sign when negative.\<close>

definition digit_char :: "nat \<Rightarrow> char" where
  "digit_char d = ''0123456789abcdef'' ! d"

function str_nat :: "nat \<Rightarrow> string" where
  "str_nat n = (if n < 10 then [digit_char n] else str_nat (n div 10) @ [digit_char (n mod 10)])"
  by pat_completeness auto
termination
  by (relation "measure id") auto

declare str_nat.simps [simp del]

definition str_int :: "int \<Rightarrow> string" where
  "str_int i = (if i < 0 then ''-'' @ str_nat (nat (- i)) else str_nat (nat i))"

text \<open>
  \<open>repr\<close> of a \<open>str\<close>: single quotes unless the text holds a single quote and no
  double quote; the quote and the backslash are escaped, tab, newline and carriage
  return are written \<open>\t \n \r\<close>, other control characters \<open>\xhh\<close>. Bytes from 0x80
  on (the UTF-8 of printable non-ASCII text such as Devanagari) stay as they are.
\<close>

definition repr_char :: "char \<Rightarrow> char \<Rightarrow> string" where
  "repr_char q c =
     (if c = q \<or> c = CHR 0x5C then [CHR 0x5C, c]
      else if c = CHR 0x09 then [CHR 0x5C, CHR ''t'']
      else if c = CHR 0x0A then [CHR 0x5C, CHR ''n'']
      else if c = CHR 0x0D then [CHR 0x5C, CHR ''r'']
      else if (of_char c :: nat) < 32 \<or> c = CHR 0x7F
        then [CHR 0x5C, CHR ''x'', digit_char (of_char c div 16), digit_char (of_char c mod 16)]
      else [c])"

definition repr_str :: "string \<Rightarrow> string" where
  "repr_str s =
     (let q = (if CHR 0x27 \<in> set s \<and> CHR 0x22 \<notin> set s then CHR 0x22 else CHR 0x27)
      in [q] @ concat (map (repr_char q) s) @ [q])"

fun repr_val :: "pyval \<Rightarrow> string" where
  "repr_val VNone = ''None''"
| "repr_val (VBool b) = (if b then ''True'' else ''False'')"
| "repr_val (VInt i) = str_int i"
| "repr_val (VStr s) = repr_str s"
| "repr_val (VList xs) = ''['' @ join '', '' (map repr_val xs) @ '']''"

text \<open>\<open>str(v)\<close>, which an f-string applies to each value it formats.\<close>

fun py_str :: "pyval \<Rightarrow> string" where
  "py_str (VStr s) = s"
| "py_str v = repr_val v"

text \<open>\<open>str(d)\<close> of a dictionary.\<close>

definition str_dict :: "pydict \<Rightarrow> string" where
  "str_dict d = ''{'' @ join '', '' (map (\<lambda>(k, v). repr_str k @ '': '' @ repr_val v) d) @ ''}''"

section \<open>Permission gate (atlas\_permissions.py)\<close>

datatype PermissionType =
  FILES | KEYBOARD_MOUSE | SCREEN_CAPTURE | ANDROID | ENTERCHAT | NETWORK | AI_REMOTE

fun permission_value :: "PermissionType \<Rightarrow> string" where
  "permission_value FILES = ''files''"
| "permission_value KEYBOARD_MOUSE = ''keyboard_mouse''"
| "permission_value SCREEN_CAPTURE = ''screen_capture''"
| "permission_value ANDROID = ''android''"
| "permission_value ENTERCHAT = ''enterchat''"
| "permission_value NETWORK = ''network''"
| "permission_value AI_REMOTE = ''ai_remote''"

datatype RiskLevel = LOW | MEDIUM | HIGH | CRITICAL

fun risk_value :: "RiskLevel \<Rightarrow> string" where
  "risk_value LOW = ''low''"
| "risk_value MEDIUM = ''medium''"
| "risk_value HIGH = ''high''"
| "risk_value CRITICAL = ''critical''"

text \<open>\<open>PermissionsConfig\<close> of atlas\_config.py: seven enabling flags, five asking flags.\<close>

record PermissionsConfig =
  can_access_files :: bool
  can_control_keyboard_mouse :: bool
  can_capture_screen :: bool
  can_control_android :: bool
  can_control_enterchat :: bool
  can_use_network :: bool
  can_use_ai_remote :: bool
  ask_every_time_files :: bool
  ask_every_time_keyboard :: bool
  ask_every_time_screen :: bool
  ask_every_time_android :: bool
  ask_every_time_enterchat :: bool

record PermissionRequest =
  permission_type :: PermissionType
  req_action :: string
  req_description :: string
  risk_level :: RiskLevel
  req_params :: pydict
  req_timestamp :: int

record AuditLogEntry =
  timestamp :: int
  audit_action :: string
  audit_permission_type :: string
  audit_risk_level :: string
  status :: string
  details :: pydict
  agent :: string

text \<open>A row of the \<open>usage_stats\<close> table that \<open>memory_agent.log_usage\<close> inserts.\<close>

record usage_row =
  usage_command :: string
  usage_agent :: string
  usage_success :: bool
  usage_duration_ms :: int
  usage_metadata :: pydict

text \<open>
  The state the pipeline shares: the permission configuration, the pending queue of the
  permission manager and its file, the lines of the audit log file, the rows of the usage
  table, the clock (milliseconds) and whatever else the tools act on (\<open>world\<close>).
  \<open>handler_calls\<close> records each tool method the executor calls, in order. Appending a
  line to the audit file and inserting a usage row are taken to succeed (the code logs and
  swallows an I/O error there).
\<close>

record 'w atlas =
  permissions :: PermissionsConfig
  pending_requests :: "PermissionRequest list"
  pending_file :: "PermissionRequest list"
  audit_log :: "AuditLogEntry list"
  usage_stats :: "usage_row list"
  handler_calls :: "(string \<times> string) list"
  now :: int
  world :: 'w

definition permission_map :: "PermissionsConfig \<Rightarrow> (PermissionType \<times> bool) list" where
  "permission_map c =
     [(FILES, can_access_files c),
      (KEYBOARD_MOUSE, can_control_keyboard_mouse c),
      (SCREEN_CAPTURE, can_capture_screen c),
      (ANDROID, can_control_android c),
      (ENTERCHAT, can_control_enterchat c),
      (NETWORK, can_use_network c),
      (AI_REMOTE, can_use_ai_remote c)]"

definition ask_every_time_map :: "PermissionsConfig \<Rightarrow> (PermissionType \<times> bool) list" where
  "ask_every_time_map c =
     [(FILES, ask_every_time_files c),
      (KEYBOARD_MOUSE, ask_every_time_keyboard c),
      (SCREEN_CAPTURE, ask_every_time_screen c),
      (ANDROID, ask_every_time_android c),
      (ENTERCHAT, ask_every_time_enterchat c)]"

text \<open>\<open>m.get(permission_type, False)\<close> on either map.\<close>

definition flag_get :: "(PermissionType \<times> bool) list \<Rightarrow> PermissionType \<Rightarrow> bool" where
  "flag_get m t = (case map_of m t of None \<Rightarrow> False | Some b \<Rightarrow> b)"

definition log_audit ::
  "string \<Rightarrow> string \<Rightarrow> string \<Rightarrow> string \<Rightarrow> pydict \<Rightarrow> string \<Rightarrow> 'w atlas \<Rightarrow> 'w atlas" where
  "log_audit act ptype rlevel st det ag s =
     s\<lparr>audit_log := audit_log s @
        [\<lparr>timestamp = now s, audit_action = act, audit_permission_type = ptype,
          audit_risk_level = rlevel, status = st, details = det, agent = ag\<rparr>]\<rparr>"

definition save_pending_requests :: "'w atlas \<Rightarrow> 'w atlas" where
  "save_pending_requests s = s\<lparr>pending_file := pending_requests s\<rparr>"

definition get_action_description :: "string \<Rightarrow> pydict \<Rightarrow> string" where
  "get_action_description act ps =
     (case map_of
        [(''delete_file'', ''Delete file: '' @ py_str (dict_get ps ''path'' (VStr ''unknown''))),
         (''create_file'', ''Create file: '' @ py_str (dict_get ps ''path'' (VStr ''unknown''))),
         (''execute_command'', ''Execute: '' @ py_str (dict_get ps ''command'' (VStr ''unknown''))),
         (''take_screenshot'', ''Capture screen screenshot''),
         (''control_mouse'', ''Control mouse movements''),
         (''control_keyboard'', ''Type text: '' @ py_str (dict_get ps ''text'' (VStr ''unknown''))),
         (''adb_command'', ''Android command: '' @ py_str (dict_get ps ''command'' (VStr ''unknown''))),
         (''send_message'',
            ''Send message via EnterChat to '' @ py_str (dict_get ps ''recipient'' (VStr ''unknown''))),
         (''network_request'',
            ''Make network request to '' @ py_str (dict_get ps ''url'' (VStr ''unknown'')))]
        act of
        None \<Rightarrow> ''Action: '' @ act
      | Some d \<Rightarrow> d)"

definition disabled_reason :: "PermissionType \<Rightarrow> string" where
  "disabled_reason t = ''Permission '' @ permission_value t @ '' is disabled. Enable it in Settings.''"

definition confirmation_reason :: string where
  "confirmation_reason = ''User confirmation required. Check pending requests.''"

text \<open>
  \<open>check_permission\<close>; the optional argument \<open>params=None\<close> is an \<open>option\<close>, and
  \<open>params or {}\<close> replaces \<open>None\<close> (and the empty dictionary) by \<open>{}\<close>.
\<close>

definition check_permission ::
  "PermissionType \<Rightarrow> string \<Rightarrow> RiskLevel \<Rightarrow> pydict option \<Rightarrow> 'w atlas
     \<Rightarrow> (bool \<times> string option) \<times> 'w atlas" where
  "check_permission ptype act rlevel params_opt s =
     (let ps = (case params_opt of None \<Rightarrow> [] | Some d \<Rightarrow> d) in
      if \<not> flag_get (permission_map (permissions s)) ptype then
        ((False, Some (disabled_reason ptype)),
         log_audit act (permission_value ptype) (risk_value rlevel) ''denied''
           [(''reason'', VStr (disabled_reason ptype))] ''system'' s)
      else if flag_get (ask_every_time_map (permissions s)) ptype then
        (let request = \<lparr>permission_type = ptype, req_action = act,
                         req_description = get_action_description act ps,
                         risk_level = rlevel, req_params = ps, req_timestamp = now s\<rparr>
         in ((False, Some confirmation_reason),
             save_pending_requests (s\<lparr>pending_requests := pending_requests s @ [request]\<rparr>)))
      else
        ((True, None),
         log_audit act (permission_value ptype) (risk_value rlevel) ''granted'' ps ''system'' s))"

text \<open>\<open>xs.pop(n)\<close> for an index in range: the element, and the list without it.\<close>

definition pop_at :: "'a list \<Rightarrow> nat \<Rightarrow> 'a \<times> 'a list" where
  "pop_at xs n = (xs ! n, take n xs @ drop (Suc n) xs)"

text \<open>
  \<open>approve_request\<close> and \<open>deny_request\<close> differ in the status they log. The index is
  a Python \<open>int\<close>; the guard \<open>0 <= request_index < len(...)\<close> keeps negative indices out
  of \<open>pop\<close>.
\<close>

definition resolve_request :: "string \<Rightarrow> int \<Rightarrow> 'w atlas \<Rightarrow> bool \<times> 'w atlas" where
  "resolve_request st request_index s =
     (if 0 \<le> request_index \<and> request_index < int (length (pending_requests s)) then
        (let (request, rest) = pop_at (pending_requests s) (nat request_index);
             s1 = save_pending_requests (s\<lparr>pending_requests := rest\<rparr>);
             s2 = log_audit (req_action request) (permission_value (permission_type request))
                    (risk_value (risk_level request)) st (req_params request) ''user'' s1
         in (True, s2))
      else (False, s))"

definition approve_request :: "int \<Rightarrow> 'w atlas \<Rightarrow> bool \<times> 'w atlas" where
  "approve_request = resolve_request ''approved''"

definition deny_request :: "int \<Rightarrow> 'w atlas \<Rightarrow> bool \<times> 'w atlas" where
  "deny_request = resolve_request ''denied_by_user''"

text \<open>
  The flags of a category as the configuration declares them: each category has an
  enabling flag; only five have an asking flag.
\<close>

fun category_enabled :: "PermissionsConfig \<Rightarrow> PermissionType \<Rightarrow> bool" where
  "category_enabled c FILES = can_access_files c"
| "category_enabled c KEYBOARD_MOUSE = can_control_keyboard_mouse c"
| "category_enabled c SCREEN_CAPTURE = can_capture_screen c"
| "category_enabled c ANDROID = can_control_android c"
| "category_enabled c ENTERCHAT = can_control_enterchat c"
| "category_enabled c NETWORK = can_use_network c"
| "category_enabled c AI_REMOTE = can_use_ai_remote c"

fun category_ask_flag :: "PermissionsConfig \<Rightarrow> PermissionType \<Rightarrow> bool option" where
  "category_ask_flag c FILES = Some (ask_every_time_files c)"
| "category_ask_flag c KEYBOARD_MOUSE = Some (ask_every_time_keyboard c)"
| "category_ask_flag c SCREEN_CAPTURE = Some (ask_every_time_screen c)"
| "category_ask_flag c ANDROID = Some (ask_every_time_android c)"
| "category_ask_flag c ENTERCHAT = Some (ask_every_time_enterchat c)"
| "category_ask_flag c NETWORK = None"
| "category_ask_flag c AI_REMOTE = None"

text \<open>A configuration and a state for concrete runs.\<close>

definition all_enabled_asking :: PermissionsConfig where
  "all_enabled_asking =
     \<lparr>can_access_files = True, can_control_keyboard_mouse = True, can_capture_screen = True,
      can_control_android = True, can_control_enterchat = True, can_use_network = True,
      can_use_ai_remote = True, ask_every_time_files = True, ask_every_time_keyboard = True,
      ask_every_time_screen = True, ask_every_time_android = True,
      ask_every_time_enterchat = True\<rparr>"

definition initial_state :: "PermissionsConfig \<Rightarrow> unit atlas" where
  "initial_state c =
     \<lparr>permissions = c, pending_requests = [], pending_file = [], audit_log = [],
      usage_stats = [], handler_calls = [], now = 0, world = ()\<rparr>"

text \<open>A state with two pending requests: \<open>delete_file\<close>, then \<open>create_file\<close>.\<close>

definition two_pending :: "unit atlas" where
  "two_pending =
     snd (check_permission FILES ''create_file'' LOW None
       (snd (check_permission FILES ''delete_file'' HIGH None (initial_state all_enabled_asking))))"

section \<open>Plans (atlas\_planner\_agent.py)\<close>

record PlanStep =
  tool :: string
  action :: string
  params :: pydict
  description :: string

record ExecutionPlan =
  intent :: string
  steps :: "PlanStep list"
  confidence :: real
  requires_confirmation :: bool

text \<open>
  \<open>optimize_plan\<close>: the key of a step is the f-string
  \<open>f"{step.tool}.{step.action}.{str(step.params)}"\<close>; the loop keeps a step when its key
  has not been seen.
\<close>

definition step_key :: "PlanStep \<Rightarrow> string" where
  "step_key st = tool st @ ''.'' @ action st @ ''.'' @ str_dict (params st)"



section \<open>Executor (atlas\_executor\_agent.py)\<close>

text \<open>
  A tool method takes the keyword arguments and the shared state and either raises (the
  text of the exception) or returns its result dictionary. \<open>tool_map\<close> gives, for a tool
  name, the methods of the tool object by name; a tool that is absent or \<open>None\<close> is
  \<open>None\<close> here, as \<open>tool_map.get\<close> answers in both cases.
\<close>

type_synonym 'w handler = "pydict \<Rightarrow> 'w atlas \<Rightarrow> (string + pydict) \<times> 'w atlas"

type_synonym 'w tool_map = "string \<Rightarrow> (string \<Rightarrow> 'w handler option) option"

record step_result =
  step_number :: int
  sr_description :: string
  sr_tool :: string
  sr_action :: string
  sr_result :: pydict
  sr_duration_ms :: int
  sr_success :: pyval

record ExecutionResult =
  success :: bool
  plan :: ExecutionPlan
  step_results :: "step_result list"
  total_duration_ms :: int
  message :: string

definition execute_step :: "'w tool_map \<Rightarrow> PlanStep \<Rightarrow> 'w atlas \<Rightarrow> pydict \<times> 'w atlas" where
  "execute_step tm step s =
     (case tm (tool step) of
        None \<Rightarrow>
          ([(''success'', VBool False), (''message'', VStr (''Tool not found: '' @ tool step))], s)
      | Some methods \<Rightarrow>
          (case methods (action step) of
             None \<Rightarrow>
               ([(''success'', VBool False),
                 (''message'', VStr (''Action not found: '' @ action step @ '' in '' @ tool step))], s)
           | Some action_method \<Rightarrow>
               (case action_method (params step)
                       (s\<lparr>handler_calls := handler_calls s @ [(tool step, action step)]\<rparr>) of
                  (Inl e, s') \<Rightarrow>
                    ([(''success'', VBool False), (''message'', VStr (''Execution error: '' @ e))], s')
                | (Inr result, s') \<Rightarrow> (result, s'))))"

definition is_critical_step :: "PlanStep \<Rightarrow> bool" where
  "is_critical_step step =
     (action step \<in> set [''delete_file'', ''delete_folder'', ''shutdown_system'', ''reboot''])"

text \<open>\<open>time.sleep\<close>: the clock advances.\<close>

definition sleep :: "int \<Rightarrow> 'w atlas \<Rightarrow> 'w atlas" where
  "sleep ms s = s\<lparr>now := now s + ms\<rparr>"

text \<open>\<open>memory_agent.log_usage\<close> inserts one row.\<close>

definition log_usage ::
  "string \<Rightarrow> string \<Rightarrow> bool \<Rightarrow> int \<Rightarrow> pydict \<Rightarrow> 'w atlas \<Rightarrow> 'w atlas" where
  "log_usage cmd ag ok duration metadata s =
     s\<lparr>usage_stats := usage_stats s @
        [\<lparr>usage_command = cmd, usage_agent = ag, usage_success = ok,
          usage_duration_ms = duration, usage_metadata = metadata\<rparr>]\<rparr>"

text \<open>
  The \<open>for i, step in enumerate(plan.steps)\<close> loop of \<open>execute_plan\<close>, with its variables
  \<open>step_results\<close> (here \<open>results\<close>) and \<open>overall_success\<close>; \<open>break\<close> returns at once.
\<close>

fun execute_loop ::
  "'w tool_map \<Rightarrow> nat \<Rightarrow> PlanStep list \<Rightarrow> step_result list \<Rightarrow> bool \<Rightarrow> 'w atlas
     \<Rightarrow> step_result list \<times> bool \<times> 'w atlas" where
  "execute_loop tm i [] results overall_success s = (results, overall_success, s)"
| "execute_loop tm i (step # rest) results overall_success s =
     (let step_start = now s;
          (result, s1) = execute_step tm step s;
          step_duration = now s1 - step_start;
          results' = results @
            [\<lparr>step_number = int i + 1, sr_description = description step, sr_tool = tool step,
              sr_action = action step, sr_result = result, sr_duration_ms = step_duration,
              sr_success = dict_get result ''success'' (VBool False)\<rparr>]
      in if \<not> truthy (dict_get result ''success'' (VBool False)) then
           (if is_critical_step step then (results', False, s1)
            else execute_loop tm (i + 1) rest results' False (sleep 100 s1))
         else execute_loop tm (i + 1) rest results' overall_success (sleep 100 s1))"

definition execute_plan ::
  "'w tool_map \<Rightarrow> ExecutionPlan \<Rightarrow> 'w atlas \<Rightarrow> ExecutionResult \<times> 'w atlas" where
  "execute_plan tm p s =
     (let start_time = now s;
          (results, overall_success, s1) = execute_loop tm 0 (steps p) [] True s;
          total_duration = now s1 - start_time;
          msg = (if overall_success
                 then ''Successfully executed '' @ str_nat (length results) @ '' steps''
                 else ''Execution completed with '' @
                      str_nat (length (filter (\<lambda>r. \<not> truthy (sr_success r)) results)) @
                      '' failures'');
          execution_result = \<lparr>success = overall_success, plan = p, step_results = results,
                                total_duration_ms = total_duration, message = msg\<rparr>;
          s2 = log_usage (intent p) ''ExecutorAgent'' overall_success total_duration
                 [(''steps'', VInt (int (length results)))] s1
      in (execution_result, s2))"

record dry_step =
  dry_step_number :: int
  dry_description :: string
  dry_tool :: string
  dry_action :: string
  dry_params :: pydict
  estimated_duration :: string

record dry_run_summary =
  dry_success :: bool
  dry_mode :: string
  total_steps :: nat
  dry_steps :: "dry_step list"
  dry_requires_confirmation :: bool
  estimated_total_duration :: string

fun dry_run_loop :: "nat \<Rightarrow> PlanStep list \<Rightarrow> dry_step list \<Rightarrow> dry_step list" where
  "dry_run_loop i [] steps_summary = steps_summary"
| "dry_run_loop i (step # rest) steps_summary =
     dry_run_loop (i + 1) rest (steps_summary @
       [\<lparr>dry_step_number = int i + 1, dry_description = description step, dry_tool = tool step,
         dry_action = action step, dry_params = params step, estimated_duration = ''~500ms''\<rparr>])"

text \<open>
  \<open>dry_run\<close> reads the plan only; in the state-passing form of the other operations it
  hands the state back as it got it.
\<close>

definition dry_run :: "ExecutionPlan \<Rightarrow> 'w atlas \<Rightarrow> dry_run_summary \<times> 'w atlas" where
  "dry_run p s =
     (\<lparr>dry_success = True, dry_mode = ''dry_run'', total_steps = length (steps p),
       dry_steps = dry_run_loop 0 (steps p) [],
       dry_requires_confirmation = requires_confirmation p,
       estimated_total_duration = ''~'' @ str_nat (length (steps p) * 500) @ ''ms''\<rparr>, s)"







text \<open>A step result counts as failed when its \<open>success\<close> entry is not true.\<close>

definition step_failed :: "step_result \<Rightarrow> bool" where
  "step_failed r = (\<not> truthy (sr_success r))"

text \<open>The entry the loop appends for a step, its result and its duration.\<close>

definition step_entry :: "nat \<Rightarrow> PlanStep \<Rightarrow> pydict \<Rightarrow> int \<Rightarrow> step_result" where
  "step_entry i step result duration =
     \<lparr>step_number = int i + 1, sr_description = description step, sr_tool = tool step,
      sr_action = action step, sr_result = result, sr_duration_ms = duration,
      sr_success = dict_get result ''success'' (VBool False)\<rparr>"

text \<open>
  The tools may call anything; a claim about the rows of the usage table written during a
  run needs to say that the tool methods themselves insert none.
\<close>

definition handlers_keep_usage :: "'w tool_map \<Rightarrow> bool" where
  "handlers_keep_usage tm =
     (\<forall>t methods a h ps s0. tm t = Some methods \<longrightarrow> methods a = Some h \<longrightarrow>
        usage_stats (snd (h ps s0)) = usage_stats s0)"

text \<open>
  A tool method in the shape of those of atlas\_file\_actions.py: it asks the permission
  gate and answers \<open>Permission denied\<close> when the gate does not grant; the file operation
  itself is left out.
\<close>

definition gated_method :: "string \<Rightarrow> RiskLevel \<Rightarrow> unit handler" where
  "gated_method act rlevel ps s =
     (case check_permission FILES act rlevel (Some ps) s of
        ((granted, reason), s') \<Rightarrow>
          if \<not> granted
          then (Inr [(''success'', VBool False), (''message'', VStr ''Permission denied'')], s')
          else (Inr [(''success'', VBool True), (''message'', VStr ''done'')], s'))"

definition demo_tools :: "unit tool_map" where
  "demo_tools t =
     (if t = ''file_actions''
      then Some (\<lambda>a. if a = ''delete_file'' then Some (gated_method ''delete_file'' HIGH)
                     else if a = ''create_file'' then Some (gated_method ''create_file'' LOW)
                     else None)
      else None)"

definition create_step :: "string \<Rightarrow> PlanStep" where
  "create_step path =
     \<lparr>tool = ''file_actions'', action = ''create_file'',
      params = [(''path'', VStr path), (''content'', VStr '''')],
      description = ''Create file: '' @ path\<rparr>"

definition delete_step :: "string \<Rightarrow> PlanStep" where
  "delete_step path =
     \<lparr>tool = ''file_actions'', action = ''delete_file'', params = [(''path'', VStr path)],
      description = ''Delete file: '' @ path\<rparr>"

definition abort_plan :: ExecutionPlan where
  "abort_plan =
     \<lparr>intent = ''delete_file'',
      steps = [create_step ''a.txt'', delete_step ''a.txt'', create_step ''b.txt''],
      confidence = 9 / 10, requires_confirmation = True\<rparr>"

section \<open>Properties of the permission gate\<close>

lemma flag_get_permission_map:
  "flag_get (permission_map c) t = category_enabled c t"
  by (cases t) (simp_all add: flag_get_def permission_map_def)

lemma flag_get_ask_every_time_map:
  "flag_get (ask_every_time_map c) t = (category_ask_flag c t = Some True)"
  by (cases t) (simp_all add: flag_get_def ask_every_time_map_def)

lemma check_permission_disabled:
  "\<not> category_enabled (permissions s) t \<Longrightarrow>
   fst (check_permission t act rl ps s) = (False, Some (disabled_reason t)) \<and>
   (\<exists>e. audit_log (snd (check_permission t act rl ps s)) = audit_log s @ [e] \<and>
        status e = ''denied'' \<and> audit_action e = act \<and> agent e = ''system'') \<and>
   pending_requests (snd (check_permission t act rl ps s)) = pending_requests s"
  by (simp add: check_permission_def flag_get_permission_map log_audit_def Let_def)

lemma check_permission_ask:
  "category_enabled (permissions s) t \<Longrightarrow> category_ask_flag (permissions s) t = Some True \<Longrightarrow>
   fst (check_permission t act rl ps s) = (False, Some confirmation_reason) \<and>
   (\<exists>r. pending_requests (snd (check_permission t act rl ps s)) = pending_requests s @ [r] \<and>
        permission_type r = t \<and> req_action r = act \<and> risk_level r = rl \<and>
        req_params r = (case ps of None \<Rightarrow> [] | Some d \<Rightarrow> d)) \<and>
   audit_log (snd (check_permission t act rl ps s)) = audit_log s"
  by (simp add: check_permission_def flag_get_permission_map flag_get_ask_every_time_map
      save_pending_requests_def Let_def)

lemma check_permission_grant:
  "category_enabled (permissions s) t \<Longrightarrow> category_ask_flag (permissions s) t \<noteq> Some True \<Longrightarrow>
   fst (check_permission t act rl ps s) = (True, None) \<and>
   (\<exists>e. audit_log (snd (check_permission t act rl ps s)) = audit_log s @ [e] \<and>
        status e = ''granted'' \<and> audit_action e = act \<and> agent e = ''system'') \<and>
   pending_requests (snd (check_permission t act rl ps s)) = pending_requests s"
  by (simp add: check_permission_def flag_get_permission_map flag_get_ask_every_time_map
      log_audit_def Let_def)

text \<open>
  C1. Every call of \<open>check_permission\<close> takes one of three branches. If the category is
  disabled it returns \<open>(False, reason)\<close> and appends exactly one audit entry with status
  \<open>denied\<close>, whatever the asking flag is. Otherwise, if the asking flag of the category is
  set, it appends exactly one request to the pending queue, returns \<open>(False, reason)\<close>
  with the confirmation reason and writes no audit entry. Otherwise it returns
  \<open>(True, None)\<close> and appends exactly one audit entry with status \<open>granted\<close>.
\<close>

theorem check_permission_decision:
  "(\<not> category_enabled (permissions s) t \<longrightarrow>
      fst (check_permission t act rl ps s) = (False, Some (disabled_reason t)) \<and>
      (\<exists>e. audit_log (snd (check_permission t act rl ps s)) = audit_log s @ [e] \<and>
           status e = ''denied'' \<and> audit_action e = act \<and> agent e = ''system'') \<and>
      pending_requests (snd (check_permission t act rl ps s)) = pending_requests s) \<and>
   (category_enabled (permissions s) t \<and> category_ask_flag (permissions s) t = Some True \<longrightarrow>
      fst (check_permission t act rl ps s) = (False, Some confirmation_reason) \<and>
      (\<exists>r. pending_requests (snd (check_permission t act rl ps s)) = pending_requests s @ [r] \<and>
           permission_type r = t \<and> req_action r = act \<and> risk_level r = rl \<and>
           req_params r = (case ps of None \<Rightarrow> [] | Some d \<Rightarrow> d)) \<and>
      audit_log (snd (check_permission t act rl ps s)) = audit_log s) \<and>
   (category_enabled (permissions s) t \<and> category_ask_flag (permissions s) t \<noteq> Some True \<longrightarrow>
      fst (check_permission t act rl ps s) = (True, None) \<and>
      (\<exists>e. audit_log (snd (check_permission t act rl ps s)) = audit_log s @ [e] \<and>
           status e = ''granted'' \<and> audit_action e = act \<and> agent e = ''system'') \<and>
      pending_requests (snd (check_permission t act rl ps s)) = pending_requests s)"
  using check_permission_disabled [of s t act rl ps] check_permission_ask [of s t act rl ps]
    check_permission_grant [of s t act rl ps]
  by blast

theorem check_permission_decision_witness:
  "fst (check_permission FILES ''delete_file'' HIGH None
          (initial_state (all_enabled_asking\<lparr>can_access_files := False\<rparr>)))
     = (False, Some (disabled_reason FILES)) \<and>
   map status (audit_log (snd (check_permission FILES ''delete_file'' HIGH None
          (initial_state (all_enabled_asking\<lparr>can_access_files := False\<rparr>))))) = [''denied''] \<and>
   fst (check_permission FILES ''delete_file'' HIGH None (initial_state all_enabled_asking))
     = (False, Some confirmation_reason) \<and>
   length (pending_requests (snd (check_permission FILES ''delete_file'' HIGH None
          (initial_state all_enabled_asking)))) = 1 \<and>
   audit_log (snd (check_permission FILES ''delete_file'' HIGH None
          (initial_state all_enabled_asking))) = [] \<and>
   fst (check_permission FILES ''delete_file'' HIGH None
          (initial_state (all_enabled_asking\<lparr>ask_every_time_files := False\<rparr>)))
     = (True, None) \<and>
   map status (audit_log (snd (check_permission FILES ''delete_file'' HIGH None
          (initial_state (all_enabled_asking\<lparr>ask_every_time_files := False\<rparr>))))) = [''granted'']"
  using
    check_permission_decision [of "initial_state (all_enabled_asking\<lparr>can_access_files := False\<rparr>)"
      FILES "''delete_file''" HIGH None]
    check_permission_decision [of "initial_state all_enabled_asking"
      FILES "''delete_file''" HIGH None]
    check_permission_decision [of "initial_state (all_enabled_asking\<lparr>ask_every_time_files := False\<rparr>)"
      FILES "''delete_file''" HIGH None]
  by (auto simp add: initial_state_def all_enabled_asking_def)

lemma resolve_request_valid:
  assumes "0 \<le> i" and "i < int (length (pending_requests s))"
  shows "fst (resolve_request st i s) = True"
    and "pending_requests (snd (resolve_request st i s)) =
           take (nat i) (pending_requests s) @ drop (Suc (nat i)) (pending_requests s)"
    and "pending_file (snd (resolve_request st i s)) =
           pending_requests (snd (resolve_request st i s))"
    and "\<exists>e. audit_log (snd (resolve_request st i s)) = audit_log s @ [e] \<and> status e = st \<and>
           agent e = ''user'' \<and> audit_action e = req_action (pending_requests s ! nat i)"
  using assms
  by (simp_all add: resolve_request_def pop_at_def save_pending_requests_def log_audit_def)

lemma resolve_request_invalid:
  "\<not> (0 \<le> i \<and> i < int (length (pending_requests s))) \<Longrightarrow> resolve_request st i s = (False, s)"
  by (auto simp add: resolve_request_def)

lemma remove_at_length:
  "n < length xs \<Longrightarrow> Suc (length (take n xs @ drop (Suc n) xs)) = length xs"
  by simp

lemma remove_at_before:
  "j < n \<Longrightarrow> n < length xs \<Longrightarrow> (take n xs @ drop (Suc n) xs) ! j = xs ! j"
  by (simp add: nth_append)

lemma remove_at_after:
  "n \<le> j \<Longrightarrow> Suc j < length xs \<Longrightarrow> (take n xs @ drop (Suc n) xs) ! j = xs ! Suc j"
  by (simp add: nth_append min_def)

text \<open>
  C3. For an index \<open>0 \<le> i < len(pending)\<close>, \<open>approve_request\<close> (respectively
  \<open>deny_request\<close>) removes exactly the entry at position \<open>i\<close> from the pending queue
  (later entries move down by one, the length decreases by one), appends exactly one audit
  entry with status \<open>approved\<close> (respectively \<open>denied_by_user\<close>) and agent \<open>user\<close>,
  and returns \<open>True\<close>. For an index out of range the call returns \<open>False\<close> and the
  state, with the pending queue and the audit log, is unchanged.
\<close>

theorem approve_deny_request:
  "(0 \<le> i \<and> i < int (length (pending_requests s)) \<longrightarrow>
      fst (approve_request i s) = True \<and>
      pending_requests (snd (approve_request i s)) =
        take (nat i) (pending_requests s) @ drop (Suc (nat i)) (pending_requests s) \<and>
      Suc (length (pending_requests (snd (approve_request i s)))) = length (pending_requests s) \<and>
      (\<forall>j. j < nat i \<longrightarrow>
          pending_requests (snd (approve_request i s)) ! j = pending_requests s ! j) \<and>
      (\<forall>j. nat i \<le> j \<and> Suc j < length (pending_requests s) \<longrightarrow>
          pending_requests (snd (approve_request i s)) ! j = pending_requests s ! Suc j) \<and>
      (\<exists>e. audit_log (snd (approve_request i s)) = audit_log s @ [e] \<and>
           status e = ''approved'' \<and> agent e = ''user'' \<and>
           audit_action e = req_action (pending_requests s ! nat i)) \<and>
      fst (deny_request i s) = True \<and>
      pending_requests (snd (deny_request i s)) =
        take (nat i) (pending_requests s) @ drop (Suc (nat i)) (pending_requests s) \<and>
      Suc (length (pending_requests (snd (deny_request i s)))) = length (pending_requests s) \<and>
      (\<exists>e. audit_log (snd (deny_request i s)) = audit_log s @ [e] \<and>
           status e = ''denied_by_user'' \<and> agent e = ''user'' \<and>
           audit_action e = req_action (pending_requests s ! nat i))) \<and>
   (\<not> (0 \<le> i \<and> i < int (length (pending_requests s))) \<longrightarrow>
      approve_request i s = (False, s) \<and> deny_request i s = (False, s))"
proof (cases "0 \<le> i \<and> i < int (length (pending_requests s))")
  case True
  then have n: "nat i < length (pending_requests s)" by (simp add: nat_less_iff)
  from True have v: "0 \<le> i" "i < int (length (pending_requests s))" by simp_all
  show ?thesis
    unfolding approve_request_def deny_request_def
    using True resolve_request_valid(1,2,4) [OF v] remove_at_length [OF n]
      remove_at_before [of _ "nat i" "pending_requests s"]
      remove_at_after [of "nat i" _ "pending_requests s"] n
    by simp
next
  case False
  then show ?thesis
    unfolding approve_request_def deny_request_def
    using resolve_request_invalid [of i s] by simp
qed


lemma two_pending_queue:
  "map req_action (pending_requests two_pending) = [''delete_file'', ''create_file''] \<and>
   audit_log two_pending = []"
  by (simp add: two_pending_def check_permission_def flag_get_def permission_map_def
      ask_every_time_map_def initial_state_def all_enabled_asking_def save_pending_requests_def Let_def)

theorem approve_deny_request_witness:
  "fst (approve_request 0 two_pending) \<and>
   map req_action (pending_requests (snd (approve_request 0 two_pending))) = [''create_file''] \<and>
   map status (audit_log (snd (approve_request 0 two_pending))) = [''approved''] \<and>
   map agent (audit_log (snd (approve_request 0 two_pending))) = [''user''] \<and>
   map status (audit_log (snd (deny_request 0 two_pending))) = [''denied_by_user''] \<and>
   approve_request 2 two_pending = (False, two_pending) \<and>
   deny_request (- 1) two_pending = (False, two_pending)"
proof -
  have len: "length (pending_requests two_pending) = 2"
    using two_pending_queue by (metis length_map length_Cons list.size(3) numeral_2_eq_2)
  obtain a b where ab: "pending_requests two_pending = [a, b]"
    using len by (metis (no_types) length_0_conv length_Suc_conv numeral_2_eq_2)
  have acts: "req_action a = ''delete_file''" "req_action b = ''create_file''"
    using two_pending_queue ab by simp_all
  have al: "audit_log two_pending = []" using two_pending_queue by simp
  show ?thesis
    using approve_deny_request [of 0 two_pending] approve_deny_request [of 2 two_pending]
      approve_deny_request [of "- 1" two_pending]
    by (auto simp add: ab acts al)
qed

text \<open>
  C10. For the categories \<open>NETWORK\<close> and \<open>AI_REMOTE\<close>, \<open>check_permission\<close> never
  creates a pending request: they are absent from the asking map, whose lookup defaults to
  \<open>False\<close>, so whenever such a category is enabled the call returns \<open>(True, None)\<close> and
  logs a \<open>granted\<close> audit entry.
\<close>

theorem network_ai_remote_never_pending:
  "t = NETWORK \<or> t = AI_REMOTE \<Longrightarrow>
   map_of (ask_every_time_map (permissions s)) t = None \<and>
   pending_requests (snd (check_permission t act rl ps s)) = pending_requests s \<and>
   (category_enabled (permissions s) t \<longrightarrow>
      fst (check_permission t act rl ps s) = (True, None) \<and>
      (\<exists>e. audit_log (snd (check_permission t act rl ps s)) = audit_log s @ [e] \<and>
           status e = ''granted'' \<and> audit_action e = act))"
  by (auto simp add: check_permission_def flag_get_def permission_map_def ask_every_time_map_def
      log_audit_def Let_def)

theorem network_ai_remote_never_pending_witness:
  "fst (check_permission NETWORK ''network_request'' MEDIUM None (initial_state all_enabled_asking))
     = (True, None) \<and>
   pending_requests (snd (check_permission NETWORK ''network_request'' MEDIUM None
       (initial_state all_enabled_asking))) = [] \<and>
   map status (audit_log (snd (check_permission AI_REMOTE ''ask_model'' LOW None
       (initial_state all_enabled_asking)))) = [''granted'']"
  using network_ai_remote_never_pending [of NETWORK "initial_state all_enabled_asking"
      "''network_request''" MEDIUM None]
    network_ai_remote_never_pending [of AI_REMOTE "initial_state all_enabled_asking"
      "''ask_model''" LOW None]
  by (auto simp add: initial_state_def all_enabled_asking_def)







section \<open>Properties of plan optimization\<close>



lemma same_triple_same_key:
  "tool a = tool b \<Longrightarrow> action a = action b \<Longrightarrow> params a = params b \<Longrightarrow> step_key a = step_key b"
  by (simp add: step_key_def)








section \<open>Properties of the executor\<close>

lemma execute_loop_acc:
  "execute_loop tm i xs acc ok s =
     (acc @ fst (execute_loop tm i xs [] True s),
      ok \<and> fst (snd (execute_loop tm i xs [] True s)),
      snd (snd (execute_loop tm i xs [] True s)))"
proof (induction xs arbitrary: i acc ok s)
  case Nil
  then show ?case by simp
next
  case (Cons x xs)
  obtain result s1 where e: "execute_step tm x s = (result, s1)"
    by (cases "execute_step tm x s")
  let ?r = "step_entry i x result (now s1 - now s)"
  note a = Cons.IH [of "Suc i" "acc @ [?r]" ok "sleep 100 s1"]
  note b = Cons.IH [of "Suc i" "acc @ [?r]" False "sleep 100 s1"]
  note c = Cons.IH [of "Suc i" "[?r]" True "sleep 100 s1"]
  note d = Cons.IH [of "Suc i" "[?r]" False "sleep 100 s1"]
  show ?case
    using a b c d by (simp add: e Let_def step_entry_def)
qed

lemma execute_loop_Cons:
  assumes "execute_step tm x s = (result, s1)"
  shows "execute_loop tm i (x # xs) [] True s =
     (if step_failed (step_entry i x result (now s1 - now s)) then
        (if is_critical_step x then ([step_entry i x result (now s1 - now s)], False, s1)
         else (step_entry i x result (now s1 - now s) #
                 fst (execute_loop tm (Suc i) xs [] True (sleep 100 s1)),
               False,
               snd (snd (execute_loop tm (Suc i) xs [] True (sleep 100 s1)))))
      else (step_entry i x result (now s1 - now s) #
              fst (execute_loop tm (Suc i) xs [] True (sleep 100 s1)),
            fst (snd (execute_loop tm (Suc i) xs [] True (sleep 100 s1))),
            snd (snd (execute_loop tm (Suc i) xs [] True (sleep 100 s1)))))"
proof -
  let ?r = "step_entry i x result (now s1 - now s)"
  note a = execute_loop_acc [of tm "Suc i" xs "[?r]" True "sleep 100 s1"]
  note b = execute_loop_acc [of tm "Suc i" xs "[?r]" False "sleep 100 s1"]
  have f: "step_failed ?r = (\<not> truthy (dict_get result ''success'' (VBool False)))"
    by (simp add: step_failed_def step_entry_def)
  show ?thesis
    using a b by (simp add: assms Let_def step_entry_def step_failed_def)
qed


lemma execute_loop_length:
  "length (fst (execute_loop tm i xs [] True s)) \<le> length xs"
proof (induction xs arbitrary: i s)
  case Nil
  then show ?case by simp
next
  case (Cons x xs)
  obtain result s1 where e: "execute_step tm x s = (result, s1)"
    by (cases "execute_step tm x s")
  show ?case
    using Cons.IH [of "Suc i" "sleep 100 s1"]
    by (simp add: execute_loop_Cons [OF e] del: execute_loop.simps(2))
qed

lemma execute_loop_entry:
  "k < length (fst (execute_loop tm i xs [] True s)) \<Longrightarrow>
   fst (execute_loop tm i xs [] True s) ! k =
     step_entry (i + k) (xs ! k)
       (sr_result (fst (execute_loop tm i xs [] True s) ! k))
       (sr_duration_ms (fst (execute_loop tm i xs [] True s) ! k))"
proof (induction xs arbitrary: i s k)
  case Nil
  then show ?case by simp
next
  case (Cons x xs)
  obtain result s1 where e: "execute_step tm x s = (result, s1)"
    by (cases "execute_step tm x s")
  show ?case
  proof (cases k)
    case 0
    then show ?thesis
      by (simp add: execute_loop_Cons [OF e] step_entry_def del: execute_loop.simps(2))
  next
    case (Suc j)
    with Cons.prems Cons.IH [of j "Suc i" "sleep 100 s1"] show ?thesis
      by (simp add: execute_loop_Cons [OF e] del: execute_loop.simps(2) split: if_splits)
  qed
qed

lemma execute_loop_stops_only_at_end:
  "Suc k < length (fst (execute_loop tm i xs [] True s)) \<Longrightarrow>
   \<not> (step_failed (fst (execute_loop tm i xs [] True s) ! k) \<and> is_critical_step (xs ! k))"
proof (induction xs arbitrary: i s k)
  case Nil
  then show ?case by simp
next
  case (Cons x xs)
  obtain result s1 where e: "execute_step tm x s = (result, s1)"
    by (cases "execute_step tm x s")
  show ?case
  proof (cases k)
    case 0
    with Cons.prems show ?thesis
      by (simp add: execute_loop_Cons [OF e] del: execute_loop.simps(2) split: if_splits)
  next
    case (Suc j)
    with Cons.prems Cons.IH [of j "Suc i" "sleep 100 s1"] show ?thesis
      by (simp add: execute_loop_Cons [OF e] del: execute_loop.simps(2) split: if_splits)
  qed
qed

lemma execute_loop_short:
  "length (fst (execute_loop tm i xs [] True s)) < length xs \<Longrightarrow>
   fst (execute_loop tm i xs [] True s) \<noteq> [] \<and>
   step_failed (last (fst (execute_loop tm i xs [] True s))) \<and>
   is_critical_step (xs ! (length (fst (execute_loop tm i xs [] True s)) - 1))"
proof (induction xs arbitrary: i s)
  case Nil
  then show ?case by simp
next
  case (Cons x xs)
  obtain result s1 where e: "execute_step tm x s = (result, s1)"
    by (cases "execute_step tm x s")
  show ?case
    using Cons.prems Cons.IH [of "Suc i" "sleep 100 s1"]
    by (auto simp add: execute_loop_Cons [OF e] simp del: execute_loop.simps(2)
        split: if_splits)
qed

lemma execute_loop_flag:
  "fst (snd (execute_loop tm i xs [] True s)) =
     (\<forall>r \<in> set (fst (execute_loop tm i xs [] True s)). \<not> step_failed r)"
proof (induction xs arbitrary: i s)
  case Nil
  then show ?case by simp
next
  case (Cons x xs)
  obtain result s1 where e: "execute_step tm x s = (result, s1)"
    by (cases "execute_step tm x s")
  show ?case
    using Cons.IH [of "Suc i" "sleep 100 s1"]
    by (simp add: execute_loop_Cons [OF e] del: execute_loop.simps(2))
qed

lemma execute_plan_fields:
  "step_results (fst (execute_plan tm p s)) = fst (execute_loop tm 0 (steps p) [] True s) \<and>
   success (fst (execute_plan tm p s)) = fst (snd (execute_loop tm 0 (steps p) [] True s)) \<and>
   plan (fst (execute_plan tm p s)) = p \<and>
   total_duration_ms (fst (execute_plan tm p s)) =
     now (snd (snd (execute_loop tm 0 (steps p) [] True s))) - now s"
  by (simp add: execute_plan_def Let_def split: prod.splits)

lemma execute_loop_continues:
  assumes "k < length (fst (execute_loop tm i xs [] True s))"
    and "\<not> is_critical_step (xs ! k)" and "Suc k < length xs"
  shows "Suc k < length (fst (execute_loop tm i xs [] True s))"
proof (rule ccontr)
  assume "\<not> Suc k < length (fst (execute_loop tm i xs [] True s))"
  with assms(1) have l: "length (fst (execute_loop tm i xs [] True s)) = Suc k" by simp
  with assms(3) have "length (fst (execute_loop tm i xs [] True s)) < length xs" by simp
  from execute_loop_short [OF this] l assms(2) show False by simp
qed

lemma execute_loop_complete:
  assumes "\<forall>k < length (fst (execute_loop tm i xs [] True s)).
             step_failed (fst (execute_loop tm i xs [] True s) ! k) \<longrightarrow> \<not> is_critical_step (xs ! k)"
  shows "length (fst (execute_loop tm i xs [] True s)) = length xs"
proof (rule ccontr)
  define rs where "rs = fst (execute_loop tm i xs [] True s)"
  assume "length (fst (execute_loop tm i xs [] True s)) \<noteq> length xs"
  with execute_loop_length [of tm i xs s]
  have "length (fst (execute_loop tm i xs [] True s)) < length xs" by simp
  from execute_loop_short [OF this]
  have ne: "rs \<noteq> []" and f: "step_failed (last rs)"
    and c: "is_critical_step (xs ! (length rs - 1))"
    by (simp_all add: rs_def)
  from ne have n: "length rs - 1 < length rs" by simp
  from ne have "last rs = rs ! (length rs - 1)" by (rule last_conv_nth)
  with f have "step_failed (rs ! (length rs - 1))" by simp
  with assms n have "\<not> is_critical_step (xs ! (length rs - 1))"
    unfolding rs_def by blast
  with c show False by simp
qed

lemma execute_loop_abort:
  assumes "k < length (fst (execute_loop tm i xs [] True s))"
    and "step_failed (fst (execute_loop tm i xs [] True s) ! k)" and "is_critical_step (xs ! k)"
  shows "length (fst (execute_loop tm i xs [] True s)) = Suc k"
proof -
  have "\<not> Suc k < length (fst (execute_loop tm i xs [] True s))"
    using execute_loop_stops_only_at_end [of k tm i xs s] assms(2,3) by blast
  with assms(1) show ?thesis by simp
qed

end
